theory Spec2Isabelle
  imports Main
begin

section \<open>The command dispatcher of \<^verbatim>\<open>rpc_runner.py\<close>\<close>

text \<open>
  The script \<^verbatim>\<open>blockstack_client/rpc_runner.py\<close> reads \<^verbatim>\<open>sys.argv\<close>, resolves a
  configuration directory, and starts, stops, queries or restarts the local API daemon
  through \<^verbatim>\<open>local_rpc_start\<close>, \<^verbatim>\<open>local_rpc_stop\<close> and \<^verbatim>\<open>local_rpc_status\<close>.
  Every path of the script ends in \<^verbatim>\<open>sys.exit\<close>. The model returns what a run
  does, in order (text written to a stream, reads of the environment, calls of the
  daemon-control functions), and the exit code.
\<close>

subsection \<open>What the interpreter and the imported modules supply\<close>

datatype stream = Stdout | Stderr

text \<open>The two exceptions line 39 of the script can raise.\<close>

datatype py_error = IndexError | ValueError

text \<open>A keyword argument of a call is either left out or passed with a value.\<close>

datatype 'a kwarg = Omitted | Passed 'a

text \<open>
  One call \<^verbatim>\<open>local_rpc_start(portnum, config_dir=..., password=..., foreground=...)\<close>.
  Every call of the script passes \<^verbatim>\<open>config_dir\<close>; \<^verbatim>\<open>password\<close> and
  \<^verbatim>\<open>foreground\<close> are passed by some calls only. A password that is passed is a
  string or \<^verbatim>\<open>None\<close>.
\<close>

record start_call =
  arg_portnum :: int
  kw_config_dir :: string
  kw_password :: "string option kwarg"
  kw_foreground :: "bool kwarg"

text \<open>
  The script's surroundings. \<open>CONFIG_DIR\<close> and \<open>CONFIG_PATH\<close> are the constants of
  the module \<^verbatim>\<open>config\<close>; \<open>environ\<close> is \<^verbatim>\<open>os.environ\<close>; \<open>py_int\<close> is the builtin
  \<^verbatim>\<open>int\<close> on a string, \<open>None\<close> where it raises \<^verbatim>\<open>ValueError\<close>; \<open>file_repr\<close>
  is the text \<^verbatim>\<open>print\<close> shows for a file object; \<open>format_exc\<close> is the trace
  \<^verbatim>\<open>traceback.print_exc\<close> writes for the exception being handled. The three
  functions of the module \<^verbatim>\<open>rpc\<close> are taken by their results, read for truth as
  \<^verbatim>\<open>if rc\<close> reads them; they are assumed to return.
\<close>

record runtime =
  CONFIG_DIR :: string
  CONFIG_PATH :: string
  environ :: "string \<rightharpoonup> string"
  py_int :: "string \<Rightarrow> int option"
  file_repr :: "stream \<Rightarrow> string"
  format_exc :: "py_error \<Rightarrow> string"
  local_rpc_start :: "start_call \<Rightarrow> bool"
  local_rpc_stop :: "string \<Rightarrow> bool"
  local_rpc_status :: "string \<Rightarrow> bool"

subsection \<open>Effects and results\<close>

datatype effect =
    Write stream string
  | Getenv string
  | Call_start start_call
  | Call_stop string
  | Call_status string

record result =
  effects :: "effect list"
  exit_code :: int

text \<open>The text a run writes to one stream, in order.\<close>

fun written :: "stream \<Rightarrow> effect list \<Rightarrow> string" where
  "written f [] = []"
| "written f (Write g s # es) = (if g = f then s @ written f es else written f es)"
| "written f (_ # es) = written f es"

text \<open>The calls of \<^verbatim>\<open>local_rpc_start\<close> a run makes.\<close>

fun start_calls :: "effect list \<Rightarrow> start_call list" where
  "start_calls [] = []"
| "start_calls (Call_start c # es) = c # start_calls es"
| "start_calls (_ # es) = start_calls es"

text \<open>Whether an effect is a call of one of the three daemon-control functions.\<close>

fun is_lifecycle_call :: "effect \<Rightarrow> bool" where
  "is_lifecycle_call (Call_start _) = True"
| "is_lifecycle_call (Call_stop _) = True"
| "is_lifecycle_call (Call_status _) = True"
| "is_lifecycle_call _ = False"

text \<open>The names of the environment variables a run reads.\<close>

fun env_reads :: "effect list \<Rightarrow> string list" where
  "env_reads [] = []"
| "env_reads (Getenv v # es) = v # env_reads es"
| "env_reads (_ # es) = env_reads es"

subsection \<open>Library functions the script calls\<close>

text \<open>
  \<^verbatim>\<open>sys.argv[i]\<close> for a literal index: the element, or \<^verbatim>\<open>IndexError\<close> out of range.
\<close>

definition argv_get :: "string list \<Rightarrow> nat \<Rightarrow> py_error + string" where
  "argv_get argv i = (if i < length argv then Inr (argv ! i) else Inl IndexError)"

text \<open>
  \<^verbatim>\<open>os.path.basename\<close> of \<^verbatim>\<open>posixpath\<close>: \<^verbatim>\<open>i = p.rfind('/') + 1; return p[i:]\<close>,
  what follows the last slash.
\<close>

definition os_path_basename :: "string \<Rightarrow> string" where
  "os_path_basename p = rev (takeWhile (\<lambda>c. c \<noteq> CHR ''/'') (rev p))"

text \<open>
  \<^verbatim>\<open>os.path.join(a, b)\<close> of \<^verbatim>\<open>posixpath\<close>: an absolute \<open>b\<close> replaces \<open>a\<close>; otherwise
  \<open>b\<close> is appended, after a slash unless \<open>a\<close> is empty or ends in one.
\<close>

definition os_path_join :: "string \<Rightarrow> string \<Rightarrow> string" where
  "os_path_join a b =
     (if b \<noteq> [] \<and> hd b = CHR ''/'' then b
      else if a = [] \<or> last a = CHR ''/'' then a @ b
      else a @ ''/'' @ b)"

text \<open>
  What \<^verbatim>\<open>print\<close> (the function, line 4 of the script) shows for an argument: a
  string as it is, a file object by its \<^verbatim>\<open>repr\<close>.
\<close>

datatype pyval = Str string | File stream

fun py_str :: "runtime \<Rightarrow> pyval \<Rightarrow> string" where
  "py_str rt (Str s) = s"
| "py_str rt (File f) = file_repr rt f"

fun sep_join :: "string list \<Rightarrow> string" where
  "sep_join [] = []"
| "sep_join [s] = s"
| "sep_join (s # t # ss) = s @ '' '' @ sep_join (t # ss)"

text \<open>
  \<^verbatim>\<open>print(a, b, ...)\<close> with no \<^verbatim>\<open>file=\<close> keyword, which is how the script calls it
  each time: the arguments, separated by one space and ended by a newline, go to
  standard output.
\<close>

definition print_function :: "runtime \<Rightarrow> pyval list \<Rightarrow> effect" where
  "print_function rt args = Write Stdout (sep_join (map (py_str rt) args) @ ''\<newline>'')"

text \<open>\<^verbatim>\<open>traceback.print_exc()\<close> writes the trace to \<^verbatim>\<open>sys.stderr\<close>.\<close>

definition print_exc :: "runtime \<Rightarrow> py_error \<Rightarrow> effect" where
  "print_exc rt e = Write Stderr (format_exc rt e)"

subsection \<open>The script\<close>

text \<open>The local variables the \<^verbatim>\<open>try\<close> block (lines 38 to 46) leaves behind.\<close>

record parsed =
  command :: string
  portnum :: int
  config_dir :: string
  config_path :: string

text \<open>
  Lines 39 to 46. \<^verbatim>\<open>sys.argv[1]\<close> is read first, then \<^verbatim>\<open>sys.argv[2]\<close>, then
  \<^verbatim>\<open>int\<close> is applied; the first exception leaves the block.
\<close>

definition parse_args :: "runtime \<Rightarrow> string list \<Rightarrow> py_error + parsed" where
  "parse_args rt argv =
     (case argv_get argv 1 of
        Inl e \<Rightarrow> Inl e
      | Inr c \<Rightarrow>
          (case argv_get argv 2 of
             Inl e \<Rightarrow> Inl e
           | Inr p \<Rightarrow>
               (case py_int rt p of
                  None \<Rightarrow> Inl ValueError
                | Some n \<Rightarrow>
                    if length argv > 3 then
                      Inr \<lparr>command = c, portnum = n, config_dir = argv ! 3,
                           config_path = os_path_join (argv ! 3) (os_path_basename (CONFIG_PATH rt))\<rparr>
                    else
                      Inr \<lparr>command = c, portnum = n, config_dir = CONFIG_DIR rt,
                           config_path = CONFIG_PATH rt\<rparr>)))"

definition wallet_password_var :: string where
  "wallet_password_var = ''BLOCKSTACK_CLIENT_WALLET_PASSWORD''"

text \<open>Line 36: \<^verbatim>\<open>'{} COMMAND PORT [config_path]'.format(sys.argv[0])\<close>.\<close>

definition usage :: "string \<Rightarrow> string" where
  "usage prog = prog @ '' COMMAND PORT [config_path]''"

text \<open>\<^verbatim>\<open>sys.exit(0 if rc else 1)\<close>.\<close>

definition exit_of :: "bool \<Rightarrow> int" where
  "exit_of rc = (if rc then 0 else 1)"

text \<open>
  Lines 52 to 81, the chain of comparisons on \<^verbatim>\<open>command\<close>, in the script's order;
  \<open>usage_text\<close> is the variable \<^verbatim>\<open>usage\<close> of line 36.
\<close>

definition dispatch :: "runtime \<Rightarrow> string \<Rightarrow> parsed \<Rightarrow> result" where
  "dispatch rt usage_text a =
     (if command a = ''start'' then
        (let passwd = environ rt wallet_password_var;
             c = \<lparr>arg_portnum = portnum a, kw_config_dir = config_dir a,
                  kw_password = Passed passwd, kw_foreground = Omitted\<rparr>;
             rc = local_rpc_start rt c
         in \<lparr>effects = [Getenv wallet_password_var, Call_start c], exit_code = exit_of rc\<rparr>)
      else if command a = ''start-foreground'' then
        (let passwd = environ rt wallet_password_var;
             c = \<lparr>arg_portnum = portnum a, kw_config_dir = config_dir a,
                  kw_password = Passed passwd, kw_foreground = Passed True\<rparr>;
             rc = local_rpc_start rt c
         in \<lparr>effects = [Getenv wallet_password_var, Call_start c], exit_code = exit_of rc\<rparr>)
      else if command a = ''status'' then
        (let rc = local_rpc_status rt (config_dir a)
         in if rc then
              \<lparr>effects = [Call_status (config_dir a),
                          print_function rt [Str ''Alive'', File Stderr]],
               exit_code = 0\<rparr>
            else
              \<lparr>effects = [Call_status (config_dir a),
                          print_function rt [Str ''Dead'', File Stderr]],
               exit_code = 1\<rparr>)
      else if command a = ''stop'' then
        (let rc = local_rpc_stop rt (config_dir a)
         in \<lparr>effects = [Call_stop (config_dir a)], exit_code = exit_of rc\<rparr>)
      else if command a = ''restart'' then
        (let rc = local_rpc_stop rt (config_dir a)
         in if \<not> rc then
              \<lparr>effects = [Call_stop (config_dir a)], exit_code = 1\<rparr>
            else
              (let c = \<lparr>arg_portnum = portnum a, kw_config_dir = config_dir a,
                        kw_password = Omitted, kw_foreground = Omitted\<rparr>;
                   rc = local_rpc_start rt c
               in \<lparr>effects = [Call_stop (config_dir a), Call_start c],
                   exit_code = exit_of rc\<rparr>))
      else
        \<lparr>effects = [print_function rt [Str usage_text, File Stderr]], exit_code = 1\<rparr>)"

text \<open>
  The whole script, run with \<^verbatim>\<open>sys.argv = [prog] + args\<close> (the interpreter always
  supplies \<^verbatim>\<open>sys.argv[0]\<close>). Lines 47 to 50 handle an exception of the \<^verbatim>\<open>try\<close>
  block: the trace, then the usage line, then exit code 1.
\<close>

definition main :: "runtime \<Rightarrow> string \<Rightarrow> string list \<Rightarrow> result" where
  "main rt prog args =
     (let argv = prog # args;
          usage_text = usage (argv ! 0)
      in case parse_args rt argv of
           Inl e \<Rightarrow>
             \<lparr>effects = [print_exc rt e, print_function rt [Str usage_text, File Stderr]],
              exit_code = 1\<rparr>
         | Inr a \<Rightarrow> dispatch rt usage_text a)"

subsection \<open>A sample runtime\<close>

text \<open>
  A runtime to run the script on concrete command lines. \<open>decimal_int\<close> reads an
  optional sign followed by decimal digits, which every \<^verbatim>\<open>int\<close> accepts; the daemon
  is up and every call succeeds; the environment is empty. The theorems below hold for
  every runtime; this one instantiates them.
\<close>

definition digit_of :: "char \<Rightarrow> nat option" where
  "digit_of c =
     (let k = (of_char c :: nat) in if 48 \<le> k \<and> k \<le> 57 then Some (k - 48) else None)"

fun digits_val :: "nat \<Rightarrow> string \<Rightarrow> nat option" where
  "digits_val acc [] = Some acc"
| "digits_val acc (c # cs) =
     (case digit_of c of None \<Rightarrow> None | Some d \<Rightarrow> digits_val (10 * acc + d) cs)"

definition decimal_int :: "string \<Rightarrow> int option" where
  "decimal_int s =
     (case s of
        [] \<Rightarrow> None
      | c # cs \<Rightarrow>
          if c = CHR ''-'' then
            (if cs = [] then None else map_option (\<lambda>n. - int n) (digits_val 0 cs))
          else if c = CHR ''+'' then
            (if cs = [] then None else map_option int (digits_val 0 cs))
          else map_option int (digits_val 0 s))"

definition sample_trace :: "py_error \<Rightarrow> string" where
  "sample_trace e =
     ''Traceback (most recent call last):\<newline>'' @
     (case e of
        IndexError \<Rightarrow> ''IndexError: list index out of range\<newline>''
      | ValueError \<Rightarrow> ''ValueError: invalid literal for int() with base 10\<newline>'')"

definition sample_runtime :: runtime where
  "sample_runtime =
     \<lparr>CONFIG_DIR = ''/home/user/.blockstack'',
      CONFIG_PATH = ''/home/user/.blockstack/client.ini'',
      environ = Map.empty,
      py_int = decimal_int,
      file_repr = (\<lambda>f. case f of Stdout \<Rightarrow> ''<open file '<stdout>', mode 'w' at 0x7f2d1c0e4150>''
                               | Stderr \<Rightarrow> ''<open file '<stderr>', mode 'w' at 0x7f2d1c0e41e0>''),
      format_exc = sample_trace,
      local_rpc_start = (\<lambda>c. True),
      local_rpc_stop = (\<lambda>d. True),
      local_rpc_status = (\<lambda>d. True)\<rparr>"


section \<open>Properties\<close>

subsection \<open>Argument parsing\<close>

lemma parse_args_Inr_length: "parse_args rt argv = Inr a \<Longrightarrow> 3 \<le> length argv"
  by (auto simp: parse_args_def argv_get_def split: if_splits sum.splits option.splits)

lemma parse_args_Inr_command: "parse_args rt argv = Inr a \<Longrightarrow> command a = argv ! 1"
  by (auto simp: parse_args_def argv_get_def split: if_splits sum.splits option.splits)

lemma parse_args_Inr_portnum:
  "parse_args rt argv = Inr a \<Longrightarrow> py_int rt (argv ! 2) = Some (portnum a)"
  by (auto simp: parse_args_def argv_get_def split: if_splits sum.splits option.splits)

lemma parse_args_Inr_config_dir:
  "parse_args rt argv = Inr a \<Longrightarrow>
     config_dir a = (if length argv > 3 then argv ! 3 else CONFIG_DIR rt)"
  by (auto simp: parse_args_def argv_get_def split: if_splits sum.splits option.splits)

lemma parse_args_short: "length argv < 3 \<Longrightarrow> parse_args rt argv = Inl IndexError"
  by (simp add: parse_args_def argv_get_def)

lemma parse_args_bad_port:
  "3 \<le> length argv \<Longrightarrow> py_int rt (argv ! 2) = None \<Longrightarrow> parse_args rt argv = Inl ValueError"
  by (simp add: parse_args_def argv_get_def)

lemma parse_args_environ: "parse_args (rt\<lparr>environ := env\<rparr>) argv = parse_args rt argv"
  by (simp add: parse_args_def split: sum.splits option.splits)

subsection \<open>The branches of the script\<close>

lemma main_parsed:
  "parse_args rt (prog # args) = Inr a \<Longrightarrow> main rt prog args = dispatch rt (usage prog) a"
  by (simp add: main_def)

lemma main_failed:
  "parse_args rt (prog # args) = Inl e \<Longrightarrow>
     main rt prog args =
       \<lparr>effects = [Write Stderr (format_exc rt e),
                   Write Stdout (usage prog @ '' '' @ file_repr rt Stderr @ ''\<newline>'')],
        exit_code = 1\<rparr>"
  by (simp add: main_def print_exc_def print_function_def)

lemma dispatch_status:
  "command a = ''status'' \<Longrightarrow>
     dispatch rt u a =
       \<lparr>effects = [Call_status (config_dir a),
                   Write Stdout ((if local_rpc_status rt (config_dir a) then ''Alive'' else ''Dead'')
                                 @ '' '' @ file_repr rt Stderr @ ''\<newline>'')],
        exit_code = (if local_rpc_status rt (config_dir a) then 0 else 1)\<rparr>"
  by (simp add: dispatch_def print_function_def)

lemma dispatch_stop:
  "command a = ''stop'' \<Longrightarrow>
     dispatch rt u a =
       \<lparr>effects = [Call_stop (config_dir a)],
        exit_code = (if local_rpc_stop rt (config_dir a) then 0 else 1)\<rparr>"
  by (simp add: dispatch_def exit_of_def)

lemma dispatch_start:
  "command a = ''start'' \<Longrightarrow>
     dispatch rt u a =
       \<lparr>effects = [Getenv wallet_password_var,
                   Call_start \<lparr>arg_portnum = portnum a, kw_config_dir = config_dir a,
                               kw_password = Passed (environ rt wallet_password_var),
                               kw_foreground = Omitted\<rparr>],
        exit_code = (if local_rpc_start rt
                          \<lparr>arg_portnum = portnum a, kw_config_dir = config_dir a,
                           kw_password = Passed (environ rt wallet_password_var),
                           kw_foreground = Omitted\<rparr> then 0 else 1)\<rparr>"
  by (simp add: dispatch_def exit_of_def)

lemma dispatch_start_foreground:
  "command a = ''start-foreground'' \<Longrightarrow>
     dispatch rt u a =
       \<lparr>effects = [Getenv wallet_password_var,
                   Call_start \<lparr>arg_portnum = portnum a, kw_config_dir = config_dir a,
                               kw_password = Passed (environ rt wallet_password_var),
                               kw_foreground = Passed True\<rparr>],
        exit_code = (if local_rpc_start rt
                          \<lparr>arg_portnum = portnum a, kw_config_dir = config_dir a,
                           kw_password = Passed (environ rt wallet_password_var),
                           kw_foreground = Passed True\<rparr> then 0 else 1)\<rparr>"
  by (simp add: dispatch_def exit_of_def)

lemma dispatch_restart:
  "command a = ''restart'' \<Longrightarrow>
     dispatch rt u a =
       (if local_rpc_stop rt (config_dir a) then
          \<lparr>effects = [Call_stop (config_dir a),
                      Call_start \<lparr>arg_portnum = portnum a, kw_config_dir = config_dir a,
                                  kw_password = Omitted, kw_foreground = Omitted\<rparr>],
           exit_code = (if local_rpc_start rt
                             \<lparr>arg_portnum = portnum a, kw_config_dir = config_dir a,
                              kw_password = Omitted, kw_foreground = Omitted\<rparr> then 0 else 1)\<rparr>
        else \<lparr>effects = [Call_stop (config_dir a)], exit_code = 1\<rparr>)"
  by (simp add: dispatch_def exit_of_def)

lemma dispatch_other:
  "command a \<noteq> ''start'' \<Longrightarrow> command a \<noteq> ''start-foreground'' \<Longrightarrow> command a \<noteq> ''status'' \<Longrightarrow>
   command a \<noteq> ''stop'' \<Longrightarrow> command a \<noteq> ''restart'' \<Longrightarrow>
     dispatch rt u a =
       \<lparr>effects = [Write Stdout (u @ '' '' @ file_repr rt Stderr @ ''\<newline>'')], exit_code = 1\<rparr>"
  by (simp add: dispatch_def print_function_def)

text \<open>
  A command line with fewer than two arguments, or whose port \<^verbatim>\<open>int\<close> rejects: the
  trace goes to the error stream, the usage line to standard output, the exit code is 1.
\<close>

lemma malformed_input:
  assumes "length args < 2 \<or> py_int rt (args ! 1) = None"
  shows "\<exists>e. main rt prog args =
           \<lparr>effects = [Write Stderr (format_exc rt e),
                       Write Stdout (usage prog @ '' '' @ file_repr rt Stderr @ ''\<newline>'')],
            exit_code = 1\<rparr>"
proof (cases "length args < 2")
  case True
  then have "parse_args rt (prog # args) = Inl IndexError"
    by (simp add: parse_args_short)
  then show ?thesis
    by (blast dest: main_failed)
next
  case False
  with assms have "parse_args rt (prog # args) = Inl ValueError"
    by (simp add: parse_args_bad_port)
  then show ?thesis
    by (blast dest: main_failed)
qed

text \<open>The definitions a run on a concrete command line unfolds.\<close>

lemmas run_defs = sample_runtime_def sample_trace_def decimal_int_def digit_of_def
  parse_args_def argv_get_def os_path_join_def os_path_basename_def usage_def
  wallet_password_var_def

section \<open>The claims\<close>

subsection \<open>The \<^verbatim>\<open>status\<close> command\<close>

text \<open>
  C1: for \<^verbatim>\<open>status\<close>, a true result of \<^verbatim>\<open>local_rpc_status\<close> prints \<^verbatim>\<open>Alive\<close> to
  the error stream and exits with 0, a false one prints \<^verbatim>\<open>Dead\<close> to the error
  stream and exits with 1. The exit codes are as stated (\<open>dispatch_status\<close>). The
  text is not: lines 64 and 67 call \<^verbatim>\<open>print('Alive', sys.stderr)\<close> under
  \<^verbatim>\<open>print_function\<close>, so \<^verbatim>\<open>sys.stderr\<close> is a second value to show, not the
  stream to write to. Run on \<^verbatim>\<open>rpc_runner.py status 16268\<close>, the script writes the
  word followed by the \<^verbatim>\<open>repr\<close> of \<^verbatim>\<open>sys.stderr\<close> to standard output, and nothing
  to the error stream.
\<close>

theorem status_alive_written_to_stdout:
  "main sample_runtime ''rpc_runner.py'' [''status'', ''16268''] =
     \<lparr>effects = [Call_status ''/home/user/.blockstack'',
                 Write Stdout ''Alive <open file '<stderr>', mode 'w' at 0x7f2d1c0e41e0>\<newline>''],
      exit_code = 0\<rparr>
   \<and> written Stderr (effects (main sample_runtime ''rpc_runner.py'' [''status'', ''16268''])) = ''''
   \<and> main (sample_runtime\<lparr>local_rpc_status := (\<lambda>d. False)\<rparr>) ''rpc_runner.py'' [''status'', ''16268''] =
     \<lparr>effects = [Call_status ''/home/user/.blockstack'',
                 Write Stdout ''Dead <open file '<stderr>', mode 'w' at 0x7f2d1c0e41e0>\<newline>''],
      exit_code = 1\<rparr>"
  by (simp add: main_def dispatch_def print_function_def run_defs)

subsection \<open>The \<^verbatim>\<open>restart\<close> command\<close>

text \<open>
  C2: for \<^verbatim>\<open>restart\<close>, when \<^verbatim>\<open>local_rpc_stop\<close> returns false,
  \<^verbatim>\<open>local_rpc_start\<close> is not called and the exit code is 1: the run consists of
  the one call of \<^verbatim>\<open>local_rpc_stop\<close>.
\<close>

theorem restart_stop_failure:
  assumes "parse_args rt (prog # args) = Inr a"
    and "command a = ''restart''"
    and "\<not> local_rpc_stop rt (config_dir a)"
  shows "main rt prog args = \<lparr>effects = [Call_stop (config_dir a)], exit_code = 1\<rparr>
         \<and> start_calls (effects (main rt prog args)) = []
         \<and> exit_code (main rt prog args) = 1"
  using assms by (simp add: main_parsed dispatch_restart)

theorem restart_stop_failure_witness:
  "parse_args (sample_runtime\<lparr>local_rpc_stop := (\<lambda>d. False)\<rparr>)
       (''rpc_runner.py'' # [''restart'', ''16268'']) =
     Inr \<lparr>command = ''restart'', portnum = 16268, config_dir = ''/home/user/.blockstack'',
          config_path = ''/home/user/.blockstack/client.ini''\<rparr>
   \<and> \<not> local_rpc_stop (sample_runtime\<lparr>local_rpc_stop := (\<lambda>d. False)\<rparr>) ''/home/user/.blockstack''
   \<and> main (sample_runtime\<lparr>local_rpc_stop := (\<lambda>d. False)\<rparr>) ''rpc_runner.py'' [''restart'', ''16268''] =
       \<lparr>effects = [Call_stop ''/home/user/.blockstack''], exit_code = 1\<rparr>
   \<and> start_calls (effects (main (sample_runtime\<lparr>local_rpc_stop := (\<lambda>d. False)\<rparr>)
         ''rpc_runner.py'' [''restart'', ''16268''])) = []"
  using restart_stop_failure [of "sample_runtime\<lparr>local_rpc_stop := (\<lambda>d. False)\<rparr>"
      "''rpc_runner.py''" "[''restart'', ''16268'']"
      "\<lparr>command = ''restart'', portnum = 16268, config_dir = ''/home/user/.blockstack'',
        config_path = ''/home/user/.blockstack/client.ini''\<rparr>"]
  by (simp add: run_defs)

text \<open>
  C3: for \<^verbatim>\<open>restart\<close>, when \<^verbatim>\<open>local_rpc_stop\<close> returns true, \<^verbatim>\<open>local_rpc_start\<close>
  is called next and the exit code is 0 if it returns true and 1 if it returns false.
\<close>

theorem restart_exit_code:
  assumes "parse_args rt (prog # args) = Inr a"
    and "command a = ''restart''"
    and "local_rpc_stop rt (config_dir a)"
  shows "effects (main rt prog args) =
           [Call_stop (config_dir a),
            Call_start \<lparr>arg_portnum = portnum a, kw_config_dir = config_dir a,
                        kw_password = Omitted, kw_foreground = Omitted\<rparr>]
         \<and> exit_code (main rt prog args) =
             (if local_rpc_start rt \<lparr>arg_portnum = portnum a, kw_config_dir = config_dir a,
                                     kw_password = Omitted, kw_foreground = Omitted\<rparr>
              then 0 else 1)"
  using assms by (simp add: main_parsed dispatch_restart)

theorem restart_exit_code_witness:
  "parse_args sample_runtime (''rpc_runner.py'' # [''restart'', ''16268'']) =
     Inr \<lparr>command = ''restart'', portnum = 16268, config_dir = ''/home/user/.blockstack'',
          config_path = ''/home/user/.blockstack/client.ini''\<rparr>
   \<and> local_rpc_stop sample_runtime ''/home/user/.blockstack''
   \<and> local_rpc_start sample_runtime
         \<lparr>arg_portnum = 16268, kw_config_dir = ''/home/user/.blockstack'',
          kw_password = Omitted, kw_foreground = Omitted\<rparr>
   \<and> exit_code (main sample_runtime ''rpc_runner.py'' [''restart'', ''16268'']) = 0
   \<and> \<not> local_rpc_start (sample_runtime\<lparr>local_rpc_start := (\<lambda>c. False)\<rparr>)
         \<lparr>arg_portnum = 16268, kw_config_dir = ''/home/user/.blockstack'',
          kw_password = Omitted, kw_foreground = Omitted\<rparr>
   \<and> exit_code (main (sample_runtime\<lparr>local_rpc_start := (\<lambda>c. False)\<rparr>)
         ''rpc_runner.py'' [''restart'', ''16268'']) = 1"
  using restart_exit_code [of sample_runtime "''rpc_runner.py''" "[''restart'', ''16268'']"
      "\<lparr>command = ''restart'', portnum = 16268, config_dir = ''/home/user/.blockstack'',
        config_path = ''/home/user/.blockstack/client.ini''\<rparr>"]
    restart_exit_code [of "sample_runtime\<lparr>local_rpc_start := (\<lambda>c. False)\<rparr>"
      "''rpc_runner.py''" "[''restart'', ''16268'']"
      "\<lparr>command = ''restart'', portnum = 16268, config_dir = ''/home/user/.blockstack'',
        config_path = ''/home/user/.blockstack/client.ini''\<rparr>"]
  by (simp add: run_defs)

text \<open>
  C9: \<^verbatim>\<open>restart\<close> calls \<^verbatim>\<open>local_rpc_start\<close> without a \<^verbatim>\<open>password\<close> argument and
  does not read the environment, so its run is the same whatever the environment
  holds; \<^verbatim>\<open>start\<close> and \<^verbatim>\<open>start-foreground\<close> read the variable and pass the
  password.
\<close>

theorem restart_passes_no_password:
  assumes "parse_args rt (prog # args) = Inr a"
  shows "(command a = ''restart'' \<longrightarrow>
            env_reads (effects (main rt prog args)) = []
            \<and> map kw_password (start_calls (effects (main rt prog args))) =
                (if local_rpc_stop rt (config_dir a) then [Omitted] else [])
            \<and> main (rt\<lparr>environ := env\<rparr>) prog args = main rt prog args)
       \<and> (command a = ''start'' \<or> command a = ''start-foreground'' \<longrightarrow>
            env_reads (effects (main rt prog args)) = [''BLOCKSTACK_CLIENT_WALLET_PASSWORD'']
            \<and> map kw_password (start_calls (effects (main rt prog args))) =
                [Passed (environ rt ''BLOCKSTACK_CLIENT_WALLET_PASSWORD'')])"
proof -
  have p: "parse_args (rt\<lparr>environ := env\<rparr>) (prog # args) = Inr a"
    using assms by (simp add: parse_args_environ)
  have restart: "command a = ''restart'' \<Longrightarrow>
      main (rt\<lparr>environ := env\<rparr>) prog args = main rt prog args"
    using assms p by (simp add: main_parsed dispatch_restart)
  show ?thesis
    using assms restart
    by (auto simp: main_parsed dispatch_restart dispatch_start dispatch_start_foreground
        wallet_password_var_def)
qed

theorem restart_passes_no_password_witness:
  "parse_args (sample_runtime\<lparr>environ := [''BLOCKSTACK_CLIENT_WALLET_PASSWORD'' \<mapsto> ''hunter2'']\<rparr>)
       (''rpc_runner.py'' # [''restart'', ''16268'']) =
     Inr \<lparr>command = ''restart'', portnum = 16268, config_dir = ''/home/user/.blockstack'',
          config_path = ''/home/user/.blockstack/client.ini''\<rparr>
   \<and> env_reads (effects (main
         (sample_runtime\<lparr>environ := [''BLOCKSTACK_CLIENT_WALLET_PASSWORD'' \<mapsto> ''hunter2'']\<rparr>)
         ''rpc_runner.py'' [''restart'', ''16268''])) = []
   \<and> map kw_password (start_calls (effects (main
         (sample_runtime\<lparr>environ := [''BLOCKSTACK_CLIENT_WALLET_PASSWORD'' \<mapsto> ''hunter2'']\<rparr>)
         ''rpc_runner.py'' [''restart'', ''16268'']))) = [Omitted]
   \<and> main (sample_runtime\<lparr>environ := [''BLOCKSTACK_CLIENT_WALLET_PASSWORD'' \<mapsto> ''hunter2'']\<rparr>)
         ''rpc_runner.py'' [''restart'', ''16268''] =
       main sample_runtime ''rpc_runner.py'' [''restart'', ''16268'']
   \<and> parse_args (sample_runtime\<lparr>environ := [''BLOCKSTACK_CLIENT_WALLET_PASSWORD'' \<mapsto> ''hunter2'']\<rparr>)
       (''rpc_runner.py'' # [''start'', ''16268'']) =
     Inr \<lparr>command = ''start'', portnum = 16268, config_dir = ''/home/user/.blockstack'',
          config_path = ''/home/user/.blockstack/client.ini''\<rparr>
   \<and> env_reads (effects (main
         (sample_runtime\<lparr>environ := [''BLOCKSTACK_CLIENT_WALLET_PASSWORD'' \<mapsto> ''hunter2'']\<rparr>)
         ''rpc_runner.py'' [''start'', ''16268''])) = [''BLOCKSTACK_CLIENT_WALLET_PASSWORD'']
   \<and> map kw_password (start_calls (effects (main
         (sample_runtime\<lparr>environ := [''BLOCKSTACK_CLIENT_WALLET_PASSWORD'' \<mapsto> ''hunter2'']\<rparr>)
         ''rpc_runner.py'' [''start'', ''16268'']))) = [Passed (Some ''hunter2'')]"
  using restart_passes_no_password
      [of "sample_runtime\<lparr>environ := [''BLOCKSTACK_CLIENT_WALLET_PASSWORD'' \<mapsto> ''hunter2'']\<rparr>"
        "''rpc_runner.py''" "[''restart'', ''16268'']"
        "\<lparr>command = ''restart'', portnum = 16268, config_dir = ''/home/user/.blockstack'',
          config_path = ''/home/user/.blockstack/client.ini''\<rparr>" Map.empty]
    restart_passes_no_password
      [of "sample_runtime\<lparr>environ := [''BLOCKSTACK_CLIENT_WALLET_PASSWORD'' \<mapsto> ''hunter2'']\<rparr>"
        "''rpc_runner.py''" "[''start'', ''16268'']"
        "\<lparr>command = ''start'', portnum = 16268, config_dir = ''/home/user/.blockstack'',
          config_path = ''/home/user/.blockstack/client.ini''\<rparr>" Map.empty]
  by (simp add: run_defs)

subsection \<open>Malformed command lines\<close>

text \<open>
  C4: on a command line with no command, no port or a port that \<^verbatim>\<open>int\<close> rejects,
  the script prints a usage message and a trace to the error stream and exits with 1.
  The exit code is 1 and the trace goes to the error stream (\<open>malformed_input\<close>
  above). The usage line does not: line 49 is \<^verbatim>\<open>print(usage, sys.stderr)\<close>, the
  same call shape as in the \<^verbatim>\<open>status\<close> branch, and it writes the usage text
  followed by the \<^verbatim>\<open>repr\<close> of \<^verbatim>\<open>sys.stderr\<close> to standard output. Run on
  \<^verbatim>\<open>rpc_runner.py start abc\<close>:
\<close>

theorem malformed_input_usage_on_stdout:
  "main sample_runtime ''rpc_runner.py'' [''start'', ''abc''] =
     \<lparr>effects =
        [Write Stderr ''Traceback (most recent call last):\<newline>ValueError: invalid literal for int() with base 10\<newline>'',
         Write Stdout ''rpc_runner.py COMMAND PORT [config_path] <open file '<stderr>', mode 'w' at 0x7f2d1c0e41e0>\<newline>''],
      exit_code = 1\<rparr>
   \<and> written Stderr (effects (main sample_runtime ''rpc_runner.py'' [''start'', ''abc''])) =
       ''Traceback (most recent call last):\<newline>ValueError: invalid literal for int() with base 10\<newline>''
   \<and> written Stdout (effects (main sample_runtime ''rpc_runner.py'' [''start'', ''abc''])) =
       ''rpc_runner.py COMMAND PORT [config_path] <open file '<stderr>', mode 'w' at 0x7f2d1c0e41e0>\<newline>''"
  by (simp add: main_def print_function_def print_exc_def run_defs)

subsection \<open>The \<^verbatim>\<open>start\<close>, \<^verbatim>\<open>start-foreground\<close> and \<^verbatim>\<open>stop\<close> commands\<close>

text \<open>
  C5: for \<^verbatim>\<open>start\<close>, \<^verbatim>\<open>start-foreground\<close> and \<^verbatim>\<open>stop\<close>, the exit code is 0 when the
  call of \<^verbatim>\<open>local_rpc_start\<close> (or \<^verbatim>\<open>local_rpc_stop\<close>) returns true and 1 when
  it returns false.
\<close>

theorem lifecycle_exit_codes:
  assumes "parse_args rt (prog # args) = Inr a"
  shows "(command a = ''start'' \<longrightarrow>
            exit_code (main rt prog args) =
              (if local_rpc_start rt
                    \<lparr>arg_portnum = portnum a, kw_config_dir = config_dir a,
                     kw_password = Passed (environ rt ''BLOCKSTACK_CLIENT_WALLET_PASSWORD''),
                     kw_foreground = Omitted\<rparr>
               then 0 else 1))
       \<and> (command a = ''start-foreground'' \<longrightarrow>
            exit_code (main rt prog args) =
              (if local_rpc_start rt
                    \<lparr>arg_portnum = portnum a, kw_config_dir = config_dir a,
                     kw_password = Passed (environ rt ''BLOCKSTACK_CLIENT_WALLET_PASSWORD''),
                     kw_foreground = Passed True\<rparr>
               then 0 else 1))
       \<and> (command a = ''stop'' \<longrightarrow>
            exit_code (main rt prog args) =
              (if local_rpc_stop rt (config_dir a) then 0 else 1))"
  using assms
  by (simp add: main_parsed dispatch_start dispatch_start_foreground dispatch_stop
      wallet_password_var_def)

theorem lifecycle_exit_codes_witness:
  "parse_args sample_runtime (''rpc_runner.py'' # [''start'', ''16268'']) =
     Inr \<lparr>command = ''start'', portnum = 16268, config_dir = ''/home/user/.blockstack'',
          config_path = ''/home/user/.blockstack/client.ini''\<rparr>
   \<and> exit_code (main sample_runtime ''rpc_runner.py'' [''start'', ''16268'']) = 0
   \<and> parse_args (sample_runtime\<lparr>local_rpc_start := (\<lambda>c. False)\<rparr>)
         (''rpc_runner.py'' # [''start-foreground'', ''16268'']) =
     Inr \<lparr>command = ''start-foreground'', portnum = 16268,
          config_dir = ''/home/user/.blockstack'',
          config_path = ''/home/user/.blockstack/client.ini''\<rparr>
   \<and> exit_code (main (sample_runtime\<lparr>local_rpc_start := (\<lambda>c. False)\<rparr>)
         ''rpc_runner.py'' [''start-foreground'', ''16268'']) = 1
   \<and> parse_args (sample_runtime\<lparr>local_rpc_stop := (\<lambda>d. False)\<rparr>)
         (''rpc_runner.py'' # [''stop'', ''16268'']) =
     Inr \<lparr>command = ''stop'', portnum = 16268, config_dir = ''/home/user/.blockstack'',
          config_path = ''/home/user/.blockstack/client.ini''\<rparr>
   \<and> exit_code (main (sample_runtime\<lparr>local_rpc_stop := (\<lambda>d. False)\<rparr>)
         ''rpc_runner.py'' [''stop'', ''16268'']) = 1"
  using lifecycle_exit_codes [of sample_runtime "''rpc_runner.py''" "[''start'', ''16268'']"
      "\<lparr>command = ''start'', portnum = 16268, config_dir = ''/home/user/.blockstack'',
        config_path = ''/home/user/.blockstack/client.ini''\<rparr>"]
    lifecycle_exit_codes [of "sample_runtime\<lparr>local_rpc_start := (\<lambda>c. False)\<rparr>"
      "''rpc_runner.py''" "[''start-foreground'', ''16268'']"
      "\<lparr>command = ''start-foreground'', portnum = 16268,
        config_dir = ''/home/user/.blockstack'',
        config_path = ''/home/user/.blockstack/client.ini''\<rparr>"]
    lifecycle_exit_codes [of "sample_runtime\<lparr>local_rpc_stop := (\<lambda>d. False)\<rparr>"
      "''rpc_runner.py''" "[''stop'', ''16268'']"
      "\<lparr>command = ''stop'', portnum = 16268, config_dir = ''/home/user/.blockstack'',
        config_path = ''/home/user/.blockstack/client.ini''\<rparr>"]
  by (simp add: run_defs)

subsection \<open>The wallet password\<close>

text \<open>
  C7: \<^verbatim>\<open>start\<close> and \<^verbatim>\<open>start-foreground\<close> read
  \<^verbatim>\<open>BLOCKSTACK_CLIENT_WALLET_PASSWORD\<close> from the environment and pass what they find
  as \<^verbatim>\<open>password\<close>: the value when the variable is set, \<^verbatim>\<open>None\<close> when it is not.
  \<^verbatim>\<open>start-foreground\<close> passes \<^verbatim>\<open>foreground=True\<close>; \<^verbatim>\<open>start\<close> does not pass
  \<^verbatim>\<open>foreground\<close>.
\<close>

theorem start_password_forwarding:
  assumes "parse_args rt (prog # args) = Inr a"
  shows "(command a = ''start'' \<longrightarrow>
            effects (main rt prog args) =
              [Getenv ''BLOCKSTACK_CLIENT_WALLET_PASSWORD'',
               Call_start \<lparr>arg_portnum = portnum a, kw_config_dir = config_dir a,
                           kw_password = Passed (environ rt ''BLOCKSTACK_CLIENT_WALLET_PASSWORD''),
                           kw_foreground = Omitted\<rparr>])
       \<and> (command a = ''start-foreground'' \<longrightarrow>
            effects (main rt prog args) =
              [Getenv ''BLOCKSTACK_CLIENT_WALLET_PASSWORD'',
               Call_start \<lparr>arg_portnum = portnum a, kw_config_dir = config_dir a,
                           kw_password = Passed (environ rt ''BLOCKSTACK_CLIENT_WALLET_PASSWORD''),
                           kw_foreground = Passed True\<rparr>])"
  using assms
  by (simp add: main_parsed dispatch_start dispatch_start_foreground wallet_password_var_def)

theorem start_password_forwarding_witness:
  "parse_args (sample_runtime\<lparr>environ := [''BLOCKSTACK_CLIENT_WALLET_PASSWORD'' \<mapsto> ''hunter2'']\<rparr>)
       (''rpc_runner.py'' # [''start'', ''16268'']) =
     Inr \<lparr>command = ''start'', portnum = 16268, config_dir = ''/home/user/.blockstack'',
          config_path = ''/home/user/.blockstack/client.ini''\<rparr>
   \<and> effects (main (sample_runtime\<lparr>environ := [''BLOCKSTACK_CLIENT_WALLET_PASSWORD'' \<mapsto> ''hunter2'']\<rparr>)
         ''rpc_runner.py'' [''start'', ''16268'']) =
       [Getenv ''BLOCKSTACK_CLIENT_WALLET_PASSWORD'',
        Call_start \<lparr>arg_portnum = 16268, kw_config_dir = ''/home/user/.blockstack'',
                    kw_password = Passed (Some ''hunter2''), kw_foreground = Omitted\<rparr>]
   \<and> parse_args sample_runtime (''rpc_runner.py'' # [''start-foreground'', ''16268'']) =
     Inr \<lparr>command = ''start-foreground'', portnum = 16268,
          config_dir = ''/home/user/.blockstack'',
          config_path = ''/home/user/.blockstack/client.ini''\<rparr>
   \<and> effects (main sample_runtime ''rpc_runner.py'' [''start-foreground'', ''16268'']) =
       [Getenv ''BLOCKSTACK_CLIENT_WALLET_PASSWORD'',
        Call_start \<lparr>arg_portnum = 16268, kw_config_dir = ''/home/user/.blockstack'',
                    kw_password = Passed None, kw_foreground = Passed True\<rparr>]"
  using start_password_forwarding
      [of "sample_runtime\<lparr>environ := [''BLOCKSTACK_CLIENT_WALLET_PASSWORD'' \<mapsto> ''hunter2'']\<rparr>"
        "''rpc_runner.py''" "[''start'', ''16268'']"
        "\<lparr>command = ''start'', portnum = 16268, config_dir = ''/home/user/.blockstack'',
          config_path = ''/home/user/.blockstack/client.ini''\<rparr>"]
    start_password_forwarding
      [of sample_runtime "''rpc_runner.py''" "[''start-foreground'', ''16268'']"
        "\<lparr>command = ''start-foreground'', portnum = 16268,
          config_dir = ''/home/user/.blockstack'',
          config_path = ''/home/user/.blockstack/client.ini''\<rparr>"]
  by (simp add: run_defs)

subsection \<open>The configuration directory\<close>

text \<open>
  C6: with a third argument \<^verbatim>\<open>sys.argv[3]\<close>, the configuration directory is that
  argument and the configuration path is the directory joined with the base name of
  \<^verbatim>\<open>CONFIG_PATH\<close>; without it both are the defaults of the module \<^verbatim>\<open>config\<close>.
  Stated for command lines whose port \<^verbatim>\<open>int\<close> accepts, since the others leave the
  \<^verbatim>\<open>try\<close> block at line 39.
\<close>

theorem config_dir_resolution:
  assumes "3 \<le> length argv" and "py_int rt (argv ! 2) = Some n"
  shows "(3 < length argv \<longrightarrow>
            parse_args rt argv =
              Inr \<lparr>command = argv ! 1, portnum = n, config_dir = argv ! 3,
                   config_path =
                     os_path_join (argv ! 3) (os_path_basename (CONFIG_PATH rt))\<rparr>)
       \<and> (length argv = 3 \<longrightarrow>
            parse_args rt argv =
              Inr \<lparr>command = argv ! 1, portnum = n, config_dir = CONFIG_DIR rt,
                   config_path = CONFIG_PATH rt\<rparr>)"
  using assms by (simp add: parse_args_def argv_get_def)

theorem config_dir_resolution_witness:
  "3 < length [''rpc_runner.py'', ''status'', ''16268'', ''/tmp/cfg'']
   \<and> py_int sample_runtime ([''rpc_runner.py'', ''status'', ''16268'', ''/tmp/cfg''] ! 2) = Some 16268
   \<and> os_path_basename (CONFIG_PATH sample_runtime) = ''client.ini''
   \<and> parse_args sample_runtime [''rpc_runner.py'', ''status'', ''16268'', ''/tmp/cfg''] =
       Inr \<lparr>command = ''status'', portnum = 16268, config_dir = ''/tmp/cfg'',
            config_path = ''/tmp/cfg/client.ini''\<rparr>
   \<and> length [''rpc_runner.py'', ''status'', ''16268''] = 3
   \<and> py_int sample_runtime ([''rpc_runner.py'', ''status'', ''16268''] ! 2) = Some 16268
   \<and> parse_args sample_runtime [''rpc_runner.py'', ''status'', ''16268''] =
       Inr \<lparr>command = ''status'', portnum = 16268, config_dir = ''/home/user/.blockstack'',
            config_path = ''/home/user/.blockstack/client.ini''\<rparr>"
  using config_dir_resolution [of "[''rpc_runner.py'', ''status'', ''16268'', ''/tmp/cfg'']"
      sample_runtime 16268]
    config_dir_resolution [of "[''rpc_runner.py'', ''status'', ''16268'']" sample_runtime 16268]
  by (simp add: sample_runtime_def decimal_int_def digit_of_def os_path_join_def
      os_path_basename_def)

subsection \<open>Unknown commands\<close>

text \<open>
  C8: for a command other than \<^verbatim>\<open>start\<close>, \<^verbatim>\<open>start-foreground\<close>, \<^verbatim>\<open>status\<close>,
  \<^verbatim>\<open>stop\<close> and \<^verbatim>\<open>restart\<close>, on a command line whose port \<^verbatim>\<open>int\<close> accepts,
  the script prints the usage text, exits with 1 and calls none of the daemon-control
  functions. The line printed is the usage text followed by the \<^verbatim>\<open>repr\<close> of
  \<^verbatim>\<open>sys.stderr\<close>, on standard output.
\<close>

theorem unknown_command:
  assumes "parse_args rt (prog # args) = Inr a"
    and "command a \<notin> {''start'', ''start-foreground'', ''status'', ''stop'', ''restart''}"
  shows "main rt prog args =
           \<lparr>effects = [Write Stdout (prog @ '' COMMAND PORT [config_path]'' @ '' ''
                                      @ file_repr rt Stderr @ ''\<newline>'')],
            exit_code = 1\<rparr>
         \<and> filter is_lifecycle_call (effects (main rt prog args)) = []"
  using assms by (simp add: main_parsed dispatch_other usage_def)

theorem unknown_command_witness:
  "parse_args sample_runtime (''rpc_runner.py'' # [''frobnicate'', ''16268'']) =
     Inr \<lparr>command = ''frobnicate'', portnum = 16268, config_dir = ''/home/user/.blockstack'',
          config_path = ''/home/user/.blockstack/client.ini''\<rparr>
   \<and> ''frobnicate'' \<notin> {''start'', ''start-foreground'', ''status'', ''stop'', ''restart''}
   \<and> main sample_runtime ''rpc_runner.py'' [''frobnicate'', ''16268''] =
       \<lparr>effects = [Write Stdout
          ''rpc_runner.py COMMAND PORT [config_path] <open file '<stderr>', mode 'w' at 0x7f2d1c0e41e0>\<newline>''],
        exit_code = 1\<rparr>
   \<and> filter is_lifecycle_call
         (effects (main sample_runtime ''rpc_runner.py'' [''frobnicate'', ''16268''])) = []"
  using unknown_command [of sample_runtime "''rpc_runner.py''" "[''frobnicate'', ''16268'']"
      "\<lparr>command = ''frobnicate'', portnum = 16268, config_dir = ''/home/user/.blockstack'',
        config_path = ''/home/user/.blockstack/client.ini''\<rparr>"]
  by (simp add: run_defs)

subsection \<open>The port and the \<^verbatim>\<open>status\<close> and \<^verbatim>\<open>stop\<close> commands\<close>

text \<open>
  C10: for \<^verbatim>\<open>status\<close> and \<^verbatim>\<open>stop\<close>, two command lines that differ only in the
  port, each port accepted by \<^verbatim>\<open>int\<close>, give the same run: the same calls, the same
  text on each stream and the same exit code.
\<close>

theorem status_stop_port_independent:
  assumes "c = ''status'' \<or> c = ''stop''"
    and "py_int rt p = Some n" and "py_int rt p' = Some n'"
  shows "main rt prog (c # p # rest) = main rt prog (c # p' # rest)"
proof -
  obtain a where a: "parse_args rt (prog # c # p # rest) = Inr a"
    using assms(2) by (cases "rest = []") (simp_all add: parse_args_def argv_get_def)
  obtain b where b: "parse_args rt (prog # c # p' # rest) = Inr b"
    using assms(3) by (cases "rest = []") (simp_all add: parse_args_def argv_get_def)
  have cmd: "command a = c" "command b = c"
    using parse_args_Inr_command [OF a] parse_args_Inr_command [OF b] by simp_all
  have dir: "config_dir a = config_dir b"
    using parse_args_Inr_config_dir [OF a] parse_args_Inr_config_dir [OF b] by simp
  show ?thesis
    using assms(1) cmd dir
    by (auto simp: main_parsed [OF a] main_parsed [OF b] dispatch_status dispatch_stop)
qed

theorem status_stop_port_independent_witness:
  "(''status'' = ''status'' \<or> ''status'' = ''stop'')
   \<and> py_int sample_runtime ''16268'' = Some 16268
   \<and> py_int sample_runtime ''80'' = Some 80
   \<and> main sample_runtime ''rpc_runner.py'' [''status'', ''16268'', ''/tmp/cfg''] =
       main sample_runtime ''rpc_runner.py'' [''status'', ''80'', ''/tmp/cfg'']
   \<and> main sample_runtime ''rpc_runner.py'' [''status'', ''80'', ''/tmp/cfg''] =
       \<lparr>effects = [Call_status ''/tmp/cfg'',
                   Write Stdout ''Alive <open file '<stderr>', mode 'w' at 0x7f2d1c0e41e0>\<newline>''],
        exit_code = 0\<rparr>"
  using status_stop_port_independent [of "''status''" sample_runtime "''16268''" 16268
      "''80''" 80 "''rpc_runner.py''" "[''/tmp/cfg'']"]
  by (simp add: main_def dispatch_def print_function_def run_defs)

end
